theory Spec2Isabelle
  imports Main
begin

section \<open>Strings\<close>

text \<open>
  A Python \<open>str\<close> is a sequence of Unicode code points, and \<open>len\<close> and slicing count
  code points. The notices and button labels of \<open>bot.py\<close> contain pictographs beyond
  the 8-bit \<open>char\<close> type, so a string is modelled as the list of its code points. The
  ASCII part of a literal is written with \<open>lit\<close>; a pictograph is written as its code
  point.
\<close>

type_synonym str = "nat list"
type_synonym bytes = "nat list"

definition lit :: "string \<Rightarrow> str" where
  "lit s = map of_char s"

text \<open>\<open>sep.join(xs)\<close>\<close>

fun join :: "str \<Rightarrow> str list \<Rightarrow> str" where
  "join sep [] = []"
| "join sep [x] = x"
| "join sep (x # y # ys) = x @ sep @ join sep (y # ys)"

text \<open>\<open>s.startswith(p)\<close>\<close>

fun startswith :: "str \<Rightarrow> str \<Rightarrow> bool" where
  "startswith s [] = True"
| "startswith [] (p # ps) = False"
| "startswith (c # cs) (p # ps) = (c = p \<and> startswith cs ps)"

text \<open>
  \<open>s.split(' ', 1)[1]\<close>: the part of \<open>s\<close> after its first space. Without a space the
  split has one element and the index raises \<open>IndexError\<close>, which is \<open>None\<close> here.
\<close>

fun split_space_1 :: "str \<Rightarrow> str option" where
  "split_space_1 [] = None"
| "split_space_1 (c # cs) = (if c = 32 then Some cs else split_space_1 cs)"

text \<open>The code points that \<open>str.strip()\<close> removes (those with \<open>str.isspace\<close>).\<close>

definition isspace :: "nat \<Rightarrow> bool" where
  "isspace c = (c \<in> {9, 10, 11, 12, 13, 28, 29, 30, 31, 32, 133, 160, 5760, 8232, 8233, 8239, 8287, 12288}
     \<or> (8192 \<le> c \<and> c \<le> 8202))"

definition strip :: "str \<Rightarrow> str" where
  "strip s = rev (dropWhile isspace (rev (dropWhile isspace s)))"

text \<open>\<open>str(n)\<close> for a natural number: its decimal digits.\<close>

fun str_nat :: "nat \<Rightarrow> str" where
  "str_nat n = (if n < 10 then [48 + n] else str_nat (n div 10) @ [48 + n mod 10])"

section \<open>Data\<close>

text \<open>
  A search result is a dictionary of the provider; the program reads its keys \<open>title\<close>,
  \<open>url\<close> and \<open>content\<close>, each of which may be absent.
\<close>

record result =
  res_title :: "str option"
  res_url :: "str option"
  res_content :: "str option"

text \<open>The provider's response: \<open>search_response.get('results', [])\<close> reads an optional key.\<close>

record search_response =
  resp_results :: "result list option"

text \<open>
  The session dictionary stored in \<open>user_sessions\<close>. It is built at lines 117-121 with
  the keys \<open>results\<close>, \<open>search_query\<close> and \<open>timestamp\<close>; \<open>content\<close> is added by the
  generation arms, so it is optional. Every session of the store comes from lines
  117-121, so the test \<open>'results' not in session\<close> is always false and only
  \<open>not session['results']\<close> remains.
\<close>

record session =
  results :: "result list"
  search_query :: str
  timestamp :: str
  content :: "str option"

record message =
  chat_id :: int
  message_id :: int
  msg_text :: str

record call =
  call_id :: str
  data :: str
  call_message :: message

datatype button = UrlButton str str | CallbackButton str str

type_synonym markup = "button list list"

datatype parse_mode = Markdown

text \<open>The calls of the messaging client, and the calls that leave the process.\<close>

datatype bot_call =
    SendMessage int str
  | ReplyTo message str
  | EditMessageText int int str "parse_mode option" markup
  | AnswerCallbackQuery str str
  | SendPhoto int bytes str parse_mode markup

datatype event =
    Bot bot_call
  | TavilySearch str
  | GeminiGenerate str
  | HFPost str

text \<open>
  What the outside world answers during one handler run. \<open>None\<close> is a raised exception;
  \<open>gemini_generate\<close> gives \<open>response.text\<close>; \<open>hf_post\<close> gives the status code and the
  body; \<open>bot_ok\<close> says whether a call of the messaging client returns (it raises
  otherwise); \<open>sent_message_id\<close> is the id of the message \<open>send_message\<close> returns and
  \<open>now\<close> is \<open>datetime.now().isoformat()\<close> at the time a session is written.
\<close>

record env =
  tavily_search :: "str \<Rightarrow> search_response option"
  gemini_generate :: "str \<Rightarrow> str option"
  hf_post :: "str \<Rightarrow> (nat \<times> bytes) option"
  bot_ok :: "bot_call \<Rightarrow> bool"
  sent_message_id :: int
  now :: str

text \<open>The global \<open>user_sessions\<close> and the calls made so far, oldest first.\<close>

record world =
  user_sessions :: "int \<rightharpoonup> session"
  trace :: "event list"

datatype outcome = Returned | Raised

definition emit :: "event \<Rightarrow> world \<Rightarrow> world" where
  "emit ev w = w\<lparr>trace := trace w @ [ev]\<rparr>"

text \<open>A call of the messaging client: it is recorded, and returns or raises.\<close>

definition call_bot :: "env \<Rightarrow> bot_call \<Rightarrow> world \<Rightarrow> outcome \<times> world" where
  "call_bot e b w = (if bot_ok e b then Returned else Raised, emit (Bot b) w)"

section \<open>The notices of \<open>bot.py\<close>\<close>

definition searching_notice :: str where
  \<comment> \<open>line 88\<close>
  "searching_notice = [0x1F50D] @ lit '' Searching the web...''"

definition no_results_notice :: str where
  \<comment> \<open>line 103\<close>
  "no_results_notice = [0x26A0, 0xFE0F] @ lit '' No relevant results found. Try a different query.''"

definition search_failed_notice :: str where
  \<comment> \<open>line 113\<close>
  "search_failed_notice = [0x26A0, 0xFE0F] @ lit '' Search failed. Please try again later.''"

definition usage_notice :: str where
  \<comment> \<open>line 150\<close>
  "usage_notice = [0x26A0, 0xFE0F] @ lit '' Please provide a search query. Usage: /search [your query]''"

definition unexpected_notice :: str where
  \<comment> \<open>line 157\<close>
  "unexpected_notice = [0x26A0, 0xFE0F] @ lit '' An unexpected error occurred. Please try again.''"

definition session_expired_notice :: str where
  \<comment> \<open>line 169\<close>
  "session_expired_notice = [0x274C] @ lit '' Session expired. Start a new search.''"

definition missing_data_notice :: str where
  \<comment> \<open>lines 198 and 326\<close>
  "missing_data_notice = [0x274C] @ lit '' Missing data. Start new search.''"

definition message_too_long_notice :: str where
  \<comment> \<open>line 258\<close>
  "message_too_long_notice = [0x26A0, 0xFE0F] @ lit '' Message too long. Try a different query.''"

definition content_failed_notice :: str where
  \<comment> \<open>line 262\<close>
  "content_failed_notice = [0x26A0, 0xFE0F] @ lit '' Content generation failed''"

definition no_content_notice :: str where
  \<comment> \<open>line 284\<close>
  "no_content_notice = [0x274C] @ lit '' No content available''"

definition send_image_failed_notice :: str where
  \<comment> \<open>line 316\<close>
  "send_image_failed_notice = [0x26A0, 0xFE0F] @ lit '' Failed to send image''"

definition image_failed_notice :: str where
  \<comment> \<open>line 319\<close>
  "image_failed_notice = [0x26A0, 0xFE0F] @ lit '' Image generation failed''"

definition regenerated_too_long_notice :: str where
  \<comment> \<open>line 386\<close>
  "regenerated_too_long_notice = [0x26A0, 0xFE0F] @ lit '' Regenerated content too long''"

definition regeneration_failed_notice :: str where
  \<comment> \<open>line 390\<close>
  "regeneration_failed_notice = [0x26A0, 0xFE0F] @ lit '' Regeneration failed''"

definition unknown_command_notice :: str where
  \<comment> \<open>line 395\<close>
  "unknown_command_notice = [0x26A0, 0xFE0F] @ lit '' Unknown command''"

definition error_occurred_notice :: str where
  \<comment> \<open>line 400\<close>
  "error_occurred_notice = [0x26A0, 0xFE0F] @ lit '' An error occurred''"

section \<open>\<open>generate_image\<close> (lines 56-77)\<close>

text \<open>
  One POST to the image provider. A status other than 200 and a raised exception both
  give \<open>None\<close>; status 200 gives \<open>response.content\<close> as it is.
\<close>

definition generate_image :: "env \<Rightarrow> str \<Rightarrow> world \<Rightarrow> bytes option \<times> world" where
  "generate_image e prompt w =
     (let w1 = emit (HFPost prompt) w in
      case hf_post e prompt of
        None \<Rightarrow> (None, w1)
      | Some (status_code, body) \<Rightarrow> (if status_code = 200 then Some body else None, w1))"

section \<open>\<open>handle_search\<close> (lines 79-157)\<close>

text \<open>Line 98: \<open>search_response.get('results', [])[:25]\<close>.\<close>

definition capped_results :: "search_response \<Rightarrow> result list" where
  "capped_results resp = take 25 (case resp_results resp of None \<Rightarrow> [] | Some rs \<Rightarrow> rs)"

text \<open>
  The inner \<open>try\<close> of lines 91-114. It either hands the results on to line 117, or
  ends the handler: by the \<open>return\<close> of line 104 or 114, or by an exception raised by
  the reply of line 113. An exception of line 93 or of the reply of line 103 is caught
  at line 111.
\<close>

datatype search_step = Results "result list" | Stop outcome

definition search_except :: "env \<Rightarrow> message \<Rightarrow> world \<Rightarrow> search_step \<times> world" where
  \<comment> \<open>lines 111-114\<close>
  "search_except e m w =
     (case call_bot e (ReplyTo m search_failed_notice) w of (out, w1) \<Rightarrow> (Stop out, w1))"

definition search_try :: "env \<Rightarrow> message \<Rightarrow> str \<Rightarrow> world \<Rightarrow> search_step \<times> world" where
  "search_try e m query w =
     (let w1 = emit (TavilySearch query) w in
      case tavily_search e query of
        None \<Rightarrow> search_except e m w1
      | Some search_response \<Rightarrow>
          (let results = capped_results search_response in
           if results = [] then
             (case call_bot e (ReplyTo m no_results_notice) w1 of
                (Returned, w2) \<Rightarrow> (Stop Returned, w2)
              | (Raised, w2) \<Rightarrow> search_except e m w2)
           else (Results results, w1)))"

text \<open>Lines 125-135: one URL button per result, each on its own row, then the generate button.\<close>

definition result_button :: "result \<Rightarrow> button" where
  "result_button r =
     UrlButton
       ([0x1F310] @ lit '' '' @ take 20 (case res_title r of None \<Rightarrow> lit ''No Title'' | Some t \<Rightarrow> t) @ lit ''...'')
       (case res_url r of None \<Rightarrow> [] | Some u \<Rightarrow> u)"

definition results_markup :: "result list \<Rightarrow> markup" where
  "results_markup rs =
     map (\<lambda>r. [result_button r]) rs
     @ [[CallbackButton ([0x2705] @ lit '' Generate Content'') (lit ''generate_content'')]]"

text \<open>
  Lines 141-143: the list comprehension reads \<open>res['title']\<close> and \<open>res['url']\<close>, which
  raise \<open>KeyError\<close> on a result without the key; \<open>None\<close> is that exception.
\<close>

fun result_lines :: "result list \<Rightarrow> str list option" where
  "result_lines [] = Some []"
| "result_lines (r # rs) =
     (case (res_title r, res_url r) of
        (Some t, Some u) \<Rightarrow>
          (case result_lines rs of
             None \<Rightarrow> None
           | Some ls \<Rightarrow> Some (([0x2022] @ lit '' ['' @ t @ lit ''](''  @ u @ lit '')'') # ls))
      | _ \<Rightarrow> None)"

text \<open>Lines 84-147, after the query has been read: the rest of the outer \<open>try\<close>.\<close>

definition search_body :: "env \<Rightarrow> message \<Rightarrow> str \<Rightarrow> world \<Rightarrow> outcome \<times> world" where
  "search_body e m query w =
     (case call_bot e (SendMessage (chat_id m) searching_notice) w of
        (Raised, w1) \<Rightarrow> (Raised, w1)
      | (Returned, w1) \<Rightarrow>
          (case search_try e m query w1 of
             (Stop out, w2) \<Rightarrow> (out, w2)
           | (Results rs, w2) \<Rightarrow>
               (let w3 = w2\<lparr>user_sessions := (user_sessions w2)(chat_id m \<mapsto>
                           \<lparr>results = rs, search_query = query, timestamp = now e,
                            content = None\<rparr>)\<rparr>
                in case result_lines rs of
                     None \<Rightarrow> (Raised, w3)
                   | Some ls \<Rightarrow>
                       call_bot e (EditMessageText (chat_id m) (sent_message_id e)
                                (lit ''*Web Search Results:*\<newline>'' @ join (lit ''\<newline>\<newline>'') ls)
                                (Some Markdown) (results_markup rs)) w3)))"

text \<open>
  The handler. \<open>message.text.split(' ', 1)[1]\<close> raises \<open>IndexError\<close> when the text has
  no space, and line 149 answers with the usage notice; any other exception of the body
  is answered at line 153. A reply that raises inside an \<open>except\<close> clause leaves the
  handler.
\<close>

definition handle_search :: "env \<Rightarrow> message \<Rightarrow> world \<Rightarrow> outcome \<times> world" where
  "handle_search e m w =
     (case split_space_1 (msg_text m) of
        None \<Rightarrow> call_bot e (ReplyTo m usage_notice) w
      | Some rest \<Rightarrow>
          (case search_body e m (strip rest) w of
             (Returned, w1) \<Rightarrow> (Returned, w1)
           | (Raised, w1) \<Rightarrow> call_bot e (ReplyTo m unexpected_notice) w1))"

section \<open>\<open>handle_all_callbacks\<close> (lines 159-400)\<close>

text \<open>
  Lines 205 and 333: every result's content under a \<open>Source N\<close> label, joined by blank
  lines; \<open>res.get('content', '')\<close> reads an absent key as the empty string.
\<close>

definition build_context :: "result list \<Rightarrow> str" where
  "build_context rs =
     join (lit ''\<newline>\<newline>'')
       (map (\<lambda>(i, res). lit ''Source '' @ str_nat (i + 1) @ lit '':\<newline>''
                          @ (case res_content res of None \<Rightarrow> [] | Some c \<Rightarrow> c))
            (enumerate 0 rs))"

text \<open>The two prompt templates, lines 209-218 and 337-346, with \<open>context[:5000]\<close> in place.\<close>

definition initial_prompt :: "str \<Rightarrow> str" where
  "initial_prompt context =
     lit ''Create engaging social media content based on these research findings:\<newline>            \<newline>            ''
     @ take 5000 context
     @ lit ''\<newline>            \<newline>            Format for these platforms:\<newline>            1. Twitter: 280-character post with 3 relevant hashtags\<newline>            2. Instagram: Caption under 2200 chars with 5 emojis\<newline>            3. LinkedIn: Professional post under 3000 chars with key insights\<newline>            \<newline>            Structure with clear platform headings. Ensure factual accuracy.''"

definition regenerate_prompt :: "str \<Rightarrow> str" where
  "regenerate_prompt context =
     lit ''Regenerate the social media content with a different style:\<newline>            \<newline>            Original context:\<newline>            ''
     @ take 5000 context
     @ lit ''\<newline>            \<newline>            Requirements:\<newline>            - More casual/informal tone\<newline>            - Use different emojis/hashtags\<newline>            - Alternative structure\<newline>            - Keep platform-specific formatting''"

text \<open>Lines 179-184, 240-244, 269-273, 299-303 and 368-372: the keyboards.\<close>

definition platform_markup :: markup where
  "platform_markup =
     [[CallbackButton ([0x1F426] @ lit '' Twitter'') (lit ''platform_twitter''),
       CallbackButton ([0x1F4F8] @ lit '' Instagram'') (lit ''platform_instagram''),
       CallbackButton ([0x1F517] @ lit '' LinkedIn'') (lit ''platform_linkedin'')]]"

definition content_markup :: markup where
  "content_markup =
     [[CallbackButton ([0x1F504] @ lit '' Regenerate'') (lit ''regenerate''),
       CallbackButton ([0x1F4E4] @ lit '' Post'') (lit ''post_content'')]]"

definition thumbnail_markup :: markup where
  "thumbnail_markup =
     [[CallbackButton ([0x1F5BC, 0xFE0F] @ lit '' Default Prompt'') (lit ''default_prompt''),
       CallbackButton ([0x1F5BC, 0xFE0F] @ lit '' Custom Prompt'') (lit ''custom_prompt'')]]"

definition share_markup :: markup where
  "share_markup =
     [[UrlButton ([0x1F426] @ lit '' Twitter'') (lit ''https://twitter.com/intent/tweet''),
       UrlButton ([0x1F4F8] @ lit '' Instagram'') (lit ''https://www.instagram.com/'')]]"

definition revised_markup :: markup where
  "revised_markup =
     [[CallbackButton ([0x1F504] @ lit '' Regenerate'') (lit ''regenerate''),
       CallbackButton ([0x1F4E4] @ lit '' Post'') (lit ''create_thumbnail'')]]"

text \<open>
  The \<open>except\<close> clauses of lines 260-263 and 388-391: answer the callback, then \<open>raise\<close>.
  Whether the answer returns or raises, an exception leaves the clause.
\<close>

definition answer_and_raise :: "env \<Rightarrow> call \<Rightarrow> str \<Rightarrow> world \<Rightarrow> outcome \<times> world" where
  "answer_and_raise e c notice w = (Raised, snd (call_bot e (AnswerCallbackQuery (call_id c) notice) w))"

text \<open>
  Lines 222-263 and 350-391 have one shape: call the text provider; an exception or an
  empty text goes to the \<open>except\<close> clause; otherwise the text is written into the session
  with a new timestamp and the message is edited; an edit that raises is answered with
  the too-long notice, and if that answer raises too, the \<open>except\<close> clause runs.
\<close>

definition generate_and_show ::
  "env \<Rightarrow> call \<Rightarrow> session \<Rightarrow> str \<Rightarrow> str \<Rightarrow> markup \<Rightarrow> str \<Rightarrow> str \<Rightarrow> world \<Rightarrow> outcome \<times> world" where
  "generate_and_show e c s prompt heading buttons too_long failed w =
     (let w1 = emit (GeminiGenerate prompt) w in
      case gemini_generate e prompt of
        None \<Rightarrow> answer_and_raise e c failed w1
      | Some response_text \<Rightarrow>
          if response_text = [] then answer_and_raise e c failed w1
          else
            (let cid = chat_id (call_message c);
                 w2 = w1\<lparr>user_sessions := (user_sessions w1)(cid \<mapsto>
                        s\<lparr>content := Some response_text, timestamp := now e\<rparr>)\<rparr>
             in case call_bot e (EditMessageText cid (message_id (call_message c))
                              (heading @ response_text) (Some Markdown) buttons) w2 of
                  (Returned, w3) \<Rightarrow> (Returned, w3)
                | (Raised, w3) \<Rightarrow>
                    (case call_bot e (AnswerCallbackQuery (call_id c) too_long) w3 of
                       (Returned, w4) \<Rightarrow> (Returned, w4)
                     | (Raised, w4) \<Rightarrow> answer_and_raise e c failed w4)))"

text \<open>Lines 175-190: the platform menu.\<close>

definition generate_content_arm :: "env \<Rightarrow> call \<Rightarrow> world \<Rightarrow> outcome \<times> world" where
  "generate_content_arm e c w =
     call_bot e (EditMessageText (chat_id (call_message c)) (message_id (call_message c))
              (lit ''Select the platform for which you want to generate content:'')
              None platform_markup) w"

text \<open>
  Lines 192-263. In the file the \<open>elif\<close> of line 192 and its body stand one level deeper
  than the chain they belong to; the arms of lines 265, 321 and 393 sit at the level of
  the \<open>if\<close> of line 175, and the model reads line 192 as the second arm of that chain,
  with lines 193-263 as its body. \<open>call.data.split('_')[1]\<close> of line 193 cannot raise
  in this arm (the data contains an underscore) and its value is only logged.
\<close>

definition platform_arm :: "env \<Rightarrow> call \<Rightarrow> session \<Rightarrow> world \<Rightarrow> outcome \<times> world" where
  "platform_arm e c s w =
     (if results s = [] then call_bot e (AnswerCallbackQuery (call_id c) missing_data_notice) w
      else generate_and_show e c s (initial_prompt (build_context (results s)))
             (lit ''*Generated Content:*\<newline>\<newline>'') content_markup
             message_too_long_notice content_failed_notice w)"

text \<open>Lines 265-280: the image menu, then \<open>return\<close>.\<close>

definition create_thumbnail_arm :: "env \<Rightarrow> call \<Rightarrow> world \<Rightarrow> outcome \<times> world" where
  "create_thumbnail_arm e c w =
     call_bot e (EditMessageText (chat_id (call_message c)) (message_id (call_message c))
              (lit ''Choose an option for image generation:'')
              None thumbnail_markup) w"

text \<open>
  Lines 282-319 follow the \<open>return\<close> of line 280 in the same arm, so no run reaches them;
  \<open>handle_all_callbacks\<close> below does not use this definition. It is what those lines
  would do: build the image prompt from the first 500 characters of the content, call
  \<open>generate_image\<close>, and send the photo with the sharing links or answer with a notice.
\<close>

definition create_thumbnail_unreachable :: "env \<Rightarrow> call \<Rightarrow> session \<Rightarrow> world \<Rightarrow> outcome \<times> world" where
  "create_thumbnail_unreachable e c s w =
     (case content s of
        None \<Rightarrow> call_bot e (AnswerCallbackQuery (call_id c) no_content_notice) w
      | Some text \<Rightarrow>
          if text = [] then call_bot e (AnswerCallbackQuery (call_id c) no_content_notice) w
          else
            (case generate_image e (lit ''Social media thumbnail image for: '' @ take 500 text) w of
               (None, w1) \<Rightarrow> call_bot e (AnswerCallbackQuery (call_id c) image_failed_notice) w1
             | (Some image_data, w1) \<Rightarrow>
                 if image_data = [] then call_bot e (AnswerCallbackQuery (call_id c) image_failed_notice) w1
                 else
                   (case call_bot e (SendPhoto (chat_id (call_message c)) image_data
                                  (lit ''*Your post is ready!*'') Markdown share_markup) w1 of
                      (Returned, w2) \<Rightarrow> (Returned, w2)
                    | (Raised, w2) \<Rightarrow> call_bot e (AnswerCallbackQuery (call_id c) send_image_failed_notice) w2)))"

text \<open>Lines 321-391.\<close>

definition regenerate_arm :: "env \<Rightarrow> call \<Rightarrow> session \<Rightarrow> world \<Rightarrow> outcome \<times> world" where
  "regenerate_arm e c s w =
     (if results s = [] then call_bot e (AnswerCallbackQuery (call_id c) missing_data_notice) w
      else generate_and_show e c s (regenerate_prompt (build_context (results s)))
             (lit ''*Revised Content:*\<newline>\<newline>'') revised_markup
             regenerated_too_long_notice regeneration_failed_notice w)"

text \<open>Lines 163-395: the body of the handler's \<open>try\<close>.\<close>

definition callback_body :: "env \<Rightarrow> call \<Rightarrow> world \<Rightarrow> outcome \<times> world" where
  "callback_body e c w =
     (case user_sessions w (chat_id (call_message c)) of
        None \<Rightarrow> call_bot e (AnswerCallbackQuery (call_id c) session_expired_notice) w
      | Some s \<Rightarrow>
          if data c = lit ''generate_content'' then generate_content_arm e c w
          else if startswith (data c) (lit ''platform_'') then platform_arm e c s w
          else if data c = lit ''create_thumbnail'' then create_thumbnail_arm e c w
          else if data c = lit ''regenerate'' then regenerate_arm e c s w
          else call_bot e (AnswerCallbackQuery (call_id c) unknown_command_notice) w)"

text \<open>
  The handler: an exception of the body is answered at line 400; if that answer raises,
  the exception leaves the handler.
\<close>

definition handle_all_callbacks :: "env \<Rightarrow> call \<Rightarrow> world \<Rightarrow> outcome \<times> world" where
  "handle_all_callbacks e c w =
     (case callback_body e c w of
        (Returned, w1) \<Rightarrow> (Returned, w1)
      | (Raised, w1) \<Rightarrow> call_bot e (AnswerCallbackQuery (call_id c) error_occurred_notice) w1)"

text \<open>A run of callbacks, each with the answers of the outside world during it.\<close>

fun run_callbacks :: "(env \<times> call) list \<Rightarrow> world \<Rightarrow> world" where
  "run_callbacks [] w = w"
| "run_callbacks ((e, c) # steps) w = run_callbacks steps (snd (handle_all_callbacks e c w))"

section \<open>Observations and sample inputs\<close>

text \<open>The calls that go to a provider (search, text generation, image), as opposed to the messaging client.\<close>

fun provider_call :: "event \<Rightarrow> bool" where
  "provider_call (Bot b) = False"
| "provider_call (TavilySearch q) = True"
| "provider_call (GeminiGenerate p) = True"
| "provider_call (HFPost p) = True"

text \<open>One chat, number 7, with a session that already holds generated content.\<close>

definition ex_result :: result where
  "ex_result = \<lparr>res_title = Some (lit ''Rust''), res_url = Some (lit ''https://example.org/rust''),
      res_content = Some (lit ''Rust is fast'')\<rparr>"

definition ex_session :: session where
  "ex_session = \<lparr>results = [ex_result], search_query = lit ''rust vs go'',
      timestamp = lit ''2024-01-01T00:00:00'', content = Some (lit ''Tweet: old'')\<rparr>"

definition ex_world :: world where
  "ex_world = \<lparr>user_sessions = [7 \<mapsto> ex_session], trace = []\<rparr>"

definition ex_env :: "nat \<Rightarrow> env" where
  "ex_env status_code = \<lparr>tavily_search = (\<lambda>q. Some \<lparr>resp_results = Some [ex_result]\<rparr>),
      gemini_generate = (\<lambda>p. Some (lit ''Tweet: ...'')),
      hf_post = (\<lambda>p. Some (status_code, [137, 80, 78, 71])),
      bot_ok = (\<lambda>b. True), sent_message_id = 12, now = lit ''2024-01-02T00:00:00''\<rparr>"

definition ex_call :: "str \<Rightarrow> call" where
  "ex_call d = \<lparr>call_id = lit ''q1'', data = d,
      call_message = \<lparr>chat_id = 7, message_id = 11, msg_text = []\<rparr>\<rparr>"

definition ex_message :: "str \<Rightarrow> message" where
  "ex_message t = \<lparr>chat_id = 7, message_id = 3, msg_text = t\<rparr>"

definition ex_search_env :: "result list option \<Rightarrow> env" where
  "ex_search_env rs = (ex_env 200)\<lparr>tavily_search := (\<lambda>q. Some \<lparr>resp_results = rs\<rparr>)\<rparr>"


section \<open>Basic facts\<close>

lemma user_sessions_emit [simp]: "user_sessions (emit ev w) = user_sessions w"
  by (simp add: emit_def)

lemma trace_emit [simp]: "trace (emit ev w) = trace w @ [ev]"
  by (simp add: emit_def)

lemma call_bot_eq: "call_bot e b w = (if bot_ok e b then Returned else Raised, emit (Bot b) w)"
  by (simp add: call_bot_def)


lemma prompt_choice_not_arm:
  assumes "d = lit ''default_prompt'' \<or> d = lit ''custom_prompt''"
  shows "d \<noteq> lit ''generate_content''" "\<not> startswith d (lit ''platform_'')"
    "d \<noteq> lit ''create_thumbnail''" "d \<noteq> lit ''regenerate''"
  using assms by (auto simp: lit_def)

lemma generate_and_show_ok:
  assumes "gemini_generate e prompt = Some t" "t \<noteq> []"
  shows "user_sessions (snd (generate_and_show e c s prompt heading buttons too_long failed w))
           = (user_sessions w)(chat_id (call_message c) \<mapsto> s\<lparr>content := Some t, timestamp := now e\<rparr>)"
    and "\<exists>rest. trace (snd (generate_and_show e c s prompt heading buttons too_long failed w))
           = trace w @ GeminiGenerate prompt
               # Bot (EditMessageText (chat_id (call_message c)) (message_id (call_message c))
                       (heading @ t) (Some Markdown) buttons) # rest
           \<and> (bot_ok e (EditMessageText (chat_id (call_message c)) (message_id (call_message c))
                       (heading @ t) (Some Markdown) buttons) \<longrightarrow> rest = [])
           \<and> filter provider_call rest = []"
    and "bot_ok e (EditMessageText (chat_id (call_message c)) (message_id (call_message c))
                       (heading @ t) (Some Markdown) buttons)
         \<Longrightarrow> fst (generate_and_show e c s prompt heading buttons too_long failed w) = Returned"
  using assms by (simp_all add: generate_and_show_def answer_and_raise_def call_bot_eq Let_def)

section \<open>Callbacks without a session\<close>

text \<open>
  C3. When the store has no session for the chat of a callback, whatever the callback's
  data: the first call of the handler is the session-expired answer (followed only by
  the generic error answer when that call raises), the provider calls in the trace are
  those that were there before, and the session store is unchanged.
\<close>

theorem no_session_callback_rejected:
  assumes "user_sessions w (chat_id (call_message c)) = None"
  shows "user_sessions (snd (handle_all_callbacks e c w)) = user_sessions w
     \<and> trace (snd (handle_all_callbacks e c w))
         = trace w @ Bot (AnswerCallbackQuery (call_id c) session_expired_notice)
             # (if bot_ok e (AnswerCallbackQuery (call_id c) session_expired_notice) then []
                else [Bot (AnswerCallbackQuery (call_id c) error_occurred_notice)])
     \<and> filter provider_call (trace (snd (handle_all_callbacks e c w))) = filter provider_call (trace w)"
  using assms by (simp add: handle_all_callbacks_def callback_body_def call_bot_eq)

theorem no_session_callback_rejected_witness:
  "handle_all_callbacks (ex_env 200) (ex_call (lit ''regenerate'')) \<lparr>user_sessions = Map.empty, trace = []\<rparr>
     = (Returned, \<lparr>user_sessions = Map.empty,
                   trace = [Bot (AnswerCallbackQuery (lit ''q1'') session_expired_notice)]\<rparr>)"
  using no_session_callback_rejected[of "\<lparr>user_sessions = Map.empty, trace = []\<rparr>"
      "ex_call (lit ''regenerate'')" "ex_env 200"]
  by (simp add: handle_all_callbacks_def callback_body_def call_bot_eq ex_call_def ex_env_def emit_def)

section \<open>The prompt-choice callbacks\<close>

text \<open>
  C1. The claim is that a prompt-choice callback (\<open>default_prompt\<close> or \<open>custom_prompt\<close>,
  the buttons of line 271-272) makes the handler call the image generator and send the
  image with the sharing links. The handler has no arm for either identifier: with a
  session present, the callback is answered with the unknown-command notice, nothing
  else is called, and the store is unchanged. The lines that call \<open>generate_image\<close>
  (282-319) stand behind the \<open>return\<close> of line 280.
\<close>

theorem prompt_choice_callback_unhandled:
  assumes "user_sessions w (chat_id (call_message c)) = Some s"
    and "data c = lit ''default_prompt'' \<or> data c = lit ''custom_prompt''"
  shows "user_sessions (snd (handle_all_callbacks e c w)) = user_sessions w
     \<and> trace (snd (handle_all_callbacks e c w))
         = trace w @ Bot (AnswerCallbackQuery (call_id c) unknown_command_notice)
             # (if bot_ok e (AnswerCallbackQuery (call_id c) unknown_command_notice) then []
                else [Bot (AnswerCallbackQuery (call_id c) error_occurred_notice)])"
  using assms(1) prompt_choice_not_arm[OF assms(2)]
  by (simp add: handle_all_callbacks_def callback_body_def call_bot_eq)

theorem prompt_choice_callback_unhandled_witness:
  "snd (handle_all_callbacks (ex_env 200) (ex_call (lit ''default_prompt'')) ex_world)
     = ex_world\<lparr>trace := [Bot (AnswerCallbackQuery (lit ''q1'') unknown_command_notice)]\<rparr>"
  using prompt_choice_callback_unhandled[of ex_world "ex_call (lit ''default_prompt'')" ex_session "ex_env 200"]
  by (simp add: ex_world_def ex_call_def ex_env_def)


section \<open>The platform callback\<close>




section \<open>The search command\<close>

lemma split_space_1_None: "split_space_1 s = None \<longleftrightarrow> 32 \<notin> set s"
  by (induction s) auto

lemma search_try_results:
  assumes "tavily_search e q = Some resp" "capped_results resp \<noteq> []"
  shows "search_try e m q w = (Results (capped_results resp), emit (TavilySearch q) w)"
  using assms by (simp add: search_try_def Let_def)

lemma handle_search_stores:
  assumes "split_space_1 (msg_text m) = Some rest"
    and "bot_ok e (SendMessage (chat_id m) searching_notice)"
    and "tavily_search e (strip rest) = Some resp"
    and "capped_results resp \<noteq> []"
  shows "user_sessions (snd (handle_search e m w))
           = (user_sessions w)(chat_id m \<mapsto>
               \<lparr>results = capped_results resp, search_query = strip rest, timestamp = now e,
                content = None\<rparr>)"
  using assms
  by (simp add: handle_search_def search_body_def search_try_results call_bot_eq Let_def
      split: option.splits)

lemma capped_results_Some:
  "resp_results resp = Some rs \<Longrightarrow> capped_results resp = take 25 rs"
  by (simp add: capped_results_def)

lemma ex_query: "split_space_1 (lit ''/search rust vs go'') = Some (lit ''rust vs go'')"
  "strip (lit ''rust vs go'') = lit ''rust vs go''"
  by (simp_all add: lit_def strip_def isspace_def)

text \<open>
  C4. When the provider's response holds the result records \<open>rs\<close> (at least one), the
  search stores for the chat a session whose results are line 98's list: exactly the
  first 25 records of \<open>rs\<close>, in the provider's order, when \<open>rs\<close> has more than 25, and
  \<open>rs\<close> itself when it has 25 or fewer.
\<close>

theorem search_results_capped:
  assumes "split_space_1 (msg_text m) = Some rest"
    and "bot_ok e (SendMessage (chat_id m) searching_notice)"
    and "tavily_search e (strip rest) = Some resp"
    and "resp_results resp = Some rs"
    and "rs \<noteq> []"
  shows "\<exists>s. user_sessions (snd (handle_search e m w)) (chat_id m) = Some s
           \<and> results s = capped_results resp
           \<and> (25 < length rs \<longrightarrow> results s = take 25 rs \<and> length (results s) = 25)
           \<and> (length rs \<le> 25 \<longrightarrow> results s = rs)"
proof -
  have c: "capped_results resp = take 25 rs"
    using assms(4) by (rule capped_results_Some)
  with assms(5) have "capped_results resp \<noteq> []" by simp
  from handle_search_stores[OF assms(1,2,3) this]
  show ?thesis by (simp add: c)
qed


theorem search_results_capped_witness:
  "map_option results
     (user_sessions (snd (handle_search (ex_search_env (Some (replicate 26 ex_result)))
        (ex_message (lit ''/search rust vs go'')) \<lparr>user_sessions = Map.empty, trace = []\<rparr>)) 7)
   = Some (replicate 25 ex_result)"
  using search_results_capped[of "ex_message (lit ''/search rust vs go'')" "lit ''rust vs go''"
      "ex_search_env (Some (replicate 26 ex_result))" "\<lparr>resp_results = Some (replicate 26 ex_result)\<rparr>"
      "replicate 26 ex_result" "\<lparr>user_sessions = Map.empty, trace = []\<rparr>"]
  by (auto simp: ex_message_def ex_search_env_def ex_env_def ex_query)

text \<open>
  C6. When the provider's response has no results (the key absent or the list empty),
  the search replies with the no-results notice right after the provider call, makes
  no further provider call, and leaves the session store as it was: no session is
  created and an earlier one is kept.
\<close>

theorem empty_search_keeps_store:
  assumes "split_space_1 (msg_text m) = Some rest"
    and "bot_ok e (SendMessage (chat_id m) searching_notice)"
    and "tavily_search e (strip rest) = Some resp"
    and "resp_results resp = None \<or> resp_results resp = Some []"
  shows "user_sessions (snd (handle_search e m w)) = user_sessions w
     \<and> (\<exists>extra. trace (snd (handle_search e m w))
           = trace w @ [Bot (SendMessage (chat_id m) searching_notice), TavilySearch (strip rest),
                        Bot (ReplyTo m no_results_notice)] @ extra
         \<and> filter provider_call extra = []
         \<and> (bot_ok e (ReplyTo m no_results_notice)
              \<longrightarrow> extra = [] \<and> fst (handle_search e m w) = Returned))"
proof -
  have "capped_results resp = []"
    using assms(4) by (auto simp: capped_results_def)
  then show ?thesis
    using assms(1,2,3)
    by (simp add: handle_search_def search_body_def search_try_def search_except_def call_bot_eq Let_def)
qed

theorem empty_search_keeps_store_witness:
  "handle_search (ex_search_env (Some [])) (ex_message (lit ''/search rust vs go'')) ex_world
     = (Returned, ex_world\<lparr>trace := [Bot (SendMessage 7 searching_notice), TavilySearch (lit ''rust vs go''),
                        Bot (ReplyTo (ex_message (lit ''/search rust vs go'')) no_results_notice)]\<rparr>)"
  using empty_search_keeps_store[of "ex_message (lit ''/search rust vs go'')" "lit ''rust vs go''"
      "ex_search_env (Some [])" "\<lparr>resp_results = Some []\<rparr>" ex_world]
  by (cases "handle_search (ex_search_env (Some [])) (ex_message (lit ''/search rust vs go'')) ex_world")
     (auto simp: ex_message_def ex_search_env_def ex_env_def ex_query ex_world_def)

section \<open>What a session keeps\<close>

lemma generate_and_show_results:
  assumes "user_sessions w (chat_id (call_message c)) = Some s"
  shows "map_option results (user_sessions (snd (generate_and_show e c s prompt heading buttons too_long failed w)) k)
           = map_option results (user_sessions w k)"
  using assms
  by (simp add: generate_and_show_def answer_and_raise_def call_bot_eq Let_def split: option.splits)

lemma callback_body_results:
  "map_option results (user_sessions (snd (callback_body e c w)) k) = map_option results (user_sessions w k)"
  by (simp add: callback_body_def generate_content_arm_def platform_arm_def create_thumbnail_arm_def
      regenerate_arm_def generate_and_show_results call_bot_eq split: option.splits)

lemma handle_all_callbacks_results:
  "map_option results (user_sessions (snd (handle_all_callbacks e c w)) k) = map_option results (user_sessions w k)"
proof (cases "callback_body e c w")
  case (Pair out w1)
  with callback_body_results[of e c w k] show ?thesis
    by (cases out) (simp_all add: handle_all_callbacks_def call_bot_eq)
qed

text \<open>
  C8. A search that gets at least one result writes a new session record for the chat:
  the capped results, the query, the time, and no content, whatever the store held for
  that chat before. No callback changes the results of any session, or creates or
  removes a session.
\<close>

theorem search_overwrites_callbacks_read:
  assumes "split_space_1 (msg_text m) = Some rest"
    and "bot_ok e (SendMessage (chat_id m) searching_notice)"
    and "tavily_search e (strip rest) = Some resp"
    and "resp_results resp = Some rs"
    and "rs \<noteq> []"
  shows "user_sessions (snd (handle_search e m w))
           = (user_sessions w)(chat_id m \<mapsto>
               \<lparr>results = take 25 rs, search_query = strip rest, timestamp = now e, content = None\<rparr>)
     \<and> (\<forall>e' c w' k. map_option results (user_sessions (snd (handle_all_callbacks e' c w')) k)
                       = map_option results (user_sessions w' k))"
proof -
  have c: "capped_results resp = take 25 rs"
    using assms(4) by (rule capped_results_Some)
  with assms(5) have "capped_results resp \<noteq> []" by simp
  from handle_search_stores[OF assms(1,2,3) this] handle_all_callbacks_results
  show ?thesis by (simp add: c)
qed

theorem search_overwrites_callbacks_read_witness:
  "user_sessions (snd (handle_search (ex_search_env (Some [ex_result])) (ex_message (lit ''/search rust vs go'')) ex_world)) 7
     = Some \<lparr>results = [ex_result], search_query = lit ''rust vs go'',
             timestamp = lit ''2024-01-02T00:00:00'', content = None\<rparr>
   \<and> content ex_session = Some (lit ''Tweet: old'')
   \<and> map_option results (user_sessions (snd (handle_all_callbacks (ex_env 200) (ex_call (lit ''regenerate'')) ex_world)) 7)
       = Some [ex_result]"
  using search_overwrites_callbacks_read[of "ex_message (lit ''/search rust vs go'')" "lit ''rust vs go''"
      "ex_search_env (Some [ex_result])" "\<lparr>resp_results = Some [ex_result]\<rparr>" "[ex_result]" ex_world]
  by (auto simp: ex_message_def ex_search_env_def ex_env_def ex_query ex_world_def ex_session_def)

section \<open>A search command without a query\<close>

text \<open>
  A text without a space gets the usage notice, with no provider call and no change of
  the store.
\<close>

lemma no_space_usage:
  assumes "32 \<notin> set (msg_text m)"
  shows "user_sessions (snd (handle_search e m w)) = user_sessions w"
    and "trace (snd (handle_search e m w)) = trace w @ [Bot (ReplyTo m usage_notice)]"
proof -
  from assms have "split_space_1 (msg_text m) = None"
    by (simp add: split_space_1_None)
  then show "user_sessions (snd (handle_search e m w)) = user_sessions w"
    and "trace (snd (handle_search e m w)) = trace w @ [Bot (ReplyTo m usage_notice)]"
    by (simp_all add: handle_search_def call_bot_eq)
qed

text \<open>
  C10. The claim is that a \<open>/search\<close> message with no query after the command gets the
  usage notice and no provider call. The usage notice is sent only when the text has no
  space at all. For the text \<open>/search\<close> followed by one space, the query is the empty
  string after \<open>strip()\<close>, and the handler searches for it and stores a session.
\<close>

theorem search_blank_query_searches:
  "handle_search (ex_search_env (Some [ex_result])) (ex_message (lit ''/search '')) \<lparr>user_sessions = Map.empty, trace = []\<rparr>
     = (Returned,
        \<lparr>user_sessions = [7 \<mapsto> \<lparr>results = [ex_result], search_query = [],
                                 timestamp = lit ''2024-01-02T00:00:00'', content = None\<rparr>],
         trace = [Bot (SendMessage 7 searching_notice), TavilySearch [],
                  Bot (EditMessageText 7 12
                         (lit ''*Web Search Results:*\<newline>'' @ [0x2022] @ lit '' [Rust](https://example.org/rust)'')
                         (Some Markdown) (results_markup [ex_result]))]\<rparr>)"
  by (simp add: handle_search_def search_body_def search_try_def capped_results_def call_bot_eq Let_def
      ex_message_def ex_search_env_def ex_env_def ex_result_def lit_def strip_def isspace_def emit_def)


section \<open>The context of the prompts\<close>










section \<open>Regeneration\<close>

lemma regenerate_step:
  assumes "user_sessions w (chat_id (call_message c)) = Some s"
    and "results s \<noteq> []"
    and "data c = lit ''regenerate''"
    and "gemini_generate e (regenerate_prompt (build_context (results s))) = Some t"
    and "t \<noteq> []"
  shows "user_sessions (snd (handle_all_callbacks e c w))
           = (user_sessions w)(chat_id (call_message c) \<mapsto> s\<lparr>content := Some t, timestamp := now e\<rparr>)"
proof -
  let ?g = "generate_and_show e c s (regenerate_prompt (build_context (results s)))
             (lit ''*Revised Content:*\<newline>\<newline>'') revised_markup
             regenerated_too_long_notice regeneration_failed_notice w"
  have d: "data c \<noteq> lit ''generate_content''" "\<not> startswith (data c) (lit ''platform_'')"
    "data c \<noteq> lit ''create_thumbnail''"
    using assms(3) by (simp_all add: lit_def)
  have body: "callback_body e c w = ?g"
    using assms(1,2,3) d by (simp add: callback_body_def regenerate_arm_def)
  have us: "user_sessions (snd ?g)
           = (user_sessions w)(chat_id (call_message c) \<mapsto> s\<lparr>content := Some t, timestamp := now e\<rparr>)"
    by (rule generate_and_show_ok(1)[OF assms(4,5)])
  show ?thesis
    using us by (cases ?g; cases "fst ?g") (auto simp: handle_all_callbacks_def body call_bot_eq)
qed

text \<open>
  C7. Starting from a session with results, after any non-empty run of regenerate
  callbacks for the chat, each of which gets a non-empty text from the provider, the
  session's \<open>content\<close> is the text of the last of them; results and query are those of
  the session at the start. The field holds one text, so nothing of the earlier
  generations is left.
\<close>

theorem regenerate_keeps_last_content:
  assumes "user_sessions w cid = Some s"
    and "results s \<noteq> []"
    and "steps \<noteq> []"
    and "\<forall>(e, c) \<in> set steps. chat_id (call_message c) = cid \<and> data c = lit ''regenerate''
           \<and> gemini_generate e (regenerate_prompt (build_context (results s))) \<notin> {None, Some []}"
  shows "\<exists>s'. user_sessions (run_callbacks steps w) cid = Some s'
           \<and> content s' = gemini_generate (fst (last steps)) (regenerate_prompt (build_context (results s)))
           \<and> results s' = results s \<and> search_query s' = search_query s"
  using assms
proof (induction steps arbitrary: w s)
  case Nil
  then show ?case by simp
next
  case (Cons step steps)
  obtain e c where step: "step = (e, c)" by (cases step)
  from Cons.prems(4) step have c: "chat_id (call_message c) = cid" "data c = lit ''regenerate''"
    and g: "gemini_generate e (regenerate_prompt (build_context (results s))) \<notin> {None, Some []}"
    by auto
  from g obtain t where t: "gemini_generate e (regenerate_prompt (build_context (results s))) = Some t" "t \<noteq> []"
    by (cases "gemini_generate e (regenerate_prompt (build_context (results s)))") auto
  let ?w1 = "snd (handle_all_callbacks e c w)"
  let ?s1 = "s\<lparr>content := Some t, timestamp := now e\<rparr>"
  have us: "user_sessions ?w1 = (user_sessions w)(cid \<mapsto> ?s1)"
    using regenerate_step[of w c s e t] Cons.prems(1,2) c t by simp
  show ?case
  proof (cases "steps = []")
    case True
    then show ?thesis using us t step by simp
  next
    case False
    have "\<exists>s'. user_sessions (run_callbacks steps ?w1) cid = Some s'
           \<and> content s' = gemini_generate (fst (last steps)) (regenerate_prompt (build_context (results ?s1)))
           \<and> results s' = results ?s1 \<and> search_query s' = search_query ?s1"
      using Cons.prems(2,4) us False by (intro Cons.IH) auto
    then show ?thesis using False step by simp
  qed
qed

theorem regenerate_keeps_last_content_witness:
  "map_option content (user_sessions (run_callbacks
       [((ex_env 200)\<lparr>gemini_generate := (\<lambda>p. Some (lit ''first''))\<rparr>, ex_call (lit ''regenerate'')),
        ((ex_env 200)\<lparr>gemini_generate := (\<lambda>p. Some (lit ''second''))\<rparr>, ex_call (lit ''regenerate''))]
       ex_world) 7)
   = Some (Some (lit ''second''))"
  using regenerate_keeps_last_content[of ex_world 7 ex_session
       "[((ex_env 200)\<lparr>gemini_generate := (\<lambda>p. Some (lit ''first''))\<rparr>, ex_call (lit ''regenerate'')),
        ((ex_env 200)\<lparr>gemini_generate := (\<lambda>p. Some (lit ''second''))\<rparr>, ex_call (lit ''regenerate''))]"]
  by (auto simp: ex_world_def ex_session_def ex_call_def ex_env_def lit_def)

section \<open>Image generation\<close>

text \<open>
  \<open>generate_image\<close> itself gives no bytes on a status other than 200 or an exception, and
  the body as it is on status 200. Lines 282-319, if they ran, would report a failed
  generation with the notice of line 319 and would send the photo with the sharing
  links on success.
\<close>

lemma generate_image_result:
  "fst (generate_image e p w)
     = (case hf_post e p of None \<Rightarrow> None
        | Some (status_code, body) \<Rightarrow> if status_code = 200 then Some body else None)"
  by (simp add: generate_image_def Let_def split: option.splits prod.splits)

lemma unreachable_lines_report_failure:
  assumes "content s = Some t" "t \<noteq> []"
    and "fst (generate_image e (lit ''Social media thumbnail image for: '' @ take 500 t) w) = None"
  shows "trace (snd (create_thumbnail_unreachable e c s w))
           = trace w @ [HFPost (lit ''Social media thumbnail image for: '' @ take 500 t),
                        Bot (AnswerCallbackQuery (call_id c) image_failed_notice)]"
    and "user_sessions (snd (create_thumbnail_unreachable e c s w)) = user_sessions w"
  using assms
  by (auto simp: create_thumbnail_unreachable_def generate_image_def call_bot_eq Let_def
      split: option.splits prod.splits if_splits)

lemma unreachable_lines_send_photo:
  assumes "content s = Some t" "t \<noteq> []"
    and "hf_post e (lit ''Social media thumbnail image for: '' @ take 500 t) = Some (200, photo)"
    and "photo \<noteq> []"
  shows "\<exists>rest. trace (snd (create_thumbnail_unreachable e c s w))
           = trace w @ HFPost (lit ''Social media thumbnail image for: '' @ take 500 t)
               # Bot (SendPhoto (chat_id (call_message c)) photo (lit ''*Your post is ready!*'')
                       Markdown share_markup) # rest"
  using assms
  by (auto simp: create_thumbnail_unreachable_def generate_image_def call_bot_eq Let_def)

text \<open>No callback, whatever its data, adds a call of the image provider or a photo to the trace.\<close>

lemma generate_and_show_no_image:
  assumes "ev \<in> set (trace (snd (generate_and_show e c s prompt heading buttons too_long failed w)))"
    and "ev = HFPost p \<or> ev = Bot (SendPhoto i b cap pm mk)"
  shows "ev \<in> set (trace w)"
  using assms
  by (auto simp: generate_and_show_def answer_and_raise_def call_bot_eq Let_def
      split: option.splits if_splits)

lemma callback_body_no_image:
  assumes "ev \<in> set (trace (snd (callback_body e c w)))"
    and "ev = HFPost p \<or> ev = Bot (SendPhoto i b cap pm mk)"
  shows "ev \<in> set (trace w)"
  using assms generate_and_show_no_image[of ev e c _ _ _ _ _ _ w p i b cap pm mk]
  by (auto simp: callback_body_def generate_content_arm_def platform_arm_def
      create_thumbnail_arm_def regenerate_arm_def call_bot_eq split: option.splits if_splits)

lemma callbacks_never_reach_image_provider:
  assumes "ev \<in> set (trace (snd (handle_all_callbacks e c w)))"
    and "ev = HFPost p \<or> ev = Bot (SendPhoto i b cap pm mk)"
  shows "ev \<in> set (trace w)"
proof (cases "callback_body e c w")
  case (Pair out w1)
  with assms callback_body_no_image[of ev e c w p i b cap pm mk] show ?thesis
    by (cases out) (auto simp: handle_all_callbacks_def call_bot_eq)
qed

text \<open>
  C9. The claim is that a failed image generation is reported to the user by the
  controller. \<open>generate_image\<close> does give no bytes on a failure, but the handler never
  calls it: the thumbnail callback edits the message into the image menu and returns
  (line 280), whatever the image provider would answer, so no failure notice is ever
  sent. No photo is sent and the store is unchanged.
\<close>

theorem thumbnail_callback_never_generates:
  assumes "user_sessions w (chat_id (call_message c)) = Some s"
    and "data c = lit ''create_thumbnail''"
  shows "user_sessions (snd (handle_all_callbacks e c w)) = user_sessions w
     \<and> trace (snd (handle_all_callbacks e c w))
         = trace w @ Bot (EditMessageText (chat_id (call_message c)) (message_id (call_message c))
                            (lit ''Choose an option for image generation:'') None thumbnail_markup)
             # (if bot_ok e (EditMessageText (chat_id (call_message c)) (message_id (call_message c))
                            (lit ''Choose an option for image generation:'') None thumbnail_markup)
                then [] else [Bot (AnswerCallbackQuery (call_id c) error_occurred_notice)])
     \<and> (\<forall>p w0. fst (generate_image e p w0)
           = (case hf_post e p of None \<Rightarrow> None
              | Some (status_code, body) \<Rightarrow> if status_code = 200 then Some body else None))"
proof -
  have d: "data c \<noteq> lit ''generate_content''" "\<not> startswith (data c) (lit ''platform_'')"
    using assms(2) by (simp_all add: lit_def)
  show ?thesis
    using assms d
    by (simp add: handle_all_callbacks_def callback_body_def create_thumbnail_arm_def call_bot_eq
        generate_image_result)
qed

theorem thumbnail_callback_never_generates_witness:
  "handle_all_callbacks (ex_env 503) (ex_call (lit ''create_thumbnail'')) ex_world
     = (Returned, ex_world\<lparr>trace := [Bot (EditMessageText 7 11
                            (lit ''Choose an option for image generation:'') None thumbnail_markup)]\<rparr>)
   \<and> fst (generate_image (ex_env 503) (lit ''Social media thumbnail image for: Tweet: old'') ex_world) = None"
  using thumbnail_callback_never_generates[of ex_world "ex_call (lit ''create_thumbnail'')" ex_session "ex_env 503"]
  by (cases "handle_all_callbacks (ex_env 503) (ex_call (lit ''create_thumbnail'')) ex_world")
     (auto simp: ex_world_def ex_call_def ex_env_def handle_all_callbacks_def callback_body_def
        create_thumbnail_arm_def call_bot_eq lit_def emit_def)


end
